theory Spec2Isabelle
  imports Complex_Main
begin

section \<open>Floating-point values as numpy sees them\<close>

text \<open>
  The arrays of \<^verbatim>\<open>mimc.py\<close> hold IEEE doubles. A double is modelled as a real number or
  one of the three special values; arithmetic on finite values is exact (rounding and
  overflow are not modelled, and zero carries no sign: \<open>x / 0\<close> takes the sign of \<open>x\<close>),
  arithmetic on the special values follows IEEE 754 as numpy applies it under
  \<^verbatim>\<open>np.errstate(divide='ignore', invalid='ignore')\<close>.
\<close>

datatype npfloat = Fin real | PInf | NInf | NaN

fun isnan :: "npfloat \<Rightarrow> bool" where
  "isnan NaN = True"
| "isnan _ = False"

fun np_neg :: "npfloat \<Rightarrow> npfloat" where
  "np_neg (Fin a) = Fin (- a)"
| "np_neg PInf = NInf"
| "np_neg NInf = PInf"
| "np_neg NaN = NaN"

fun np_add :: "npfloat \<Rightarrow> npfloat \<Rightarrow> npfloat" where
  "np_add NaN _ = NaN"
| "np_add _ NaN = NaN"
| "np_add (Fin a) (Fin b) = Fin (a + b)"
| "np_add PInf NInf = NaN"
| "np_add NInf PInf = NaN"
| "np_add PInf _ = PInf"
| "np_add _ PInf = PInf"
| "np_add NInf _ = NInf"
| "np_add _ NInf = NInf"

definition np_sub :: "npfloat \<Rightarrow> npfloat \<Rightarrow> npfloat" where
  "np_sub x y = np_add x (np_neg y)"

text \<open>The sign of a value that is not NaN: \<open>-1\<close>, \<open>0\<close> or \<open>1\<close>.\<close>

fun np_sgn :: "npfloat \<Rightarrow> int" where
  "np_sgn (Fin a) = (if a < 0 then - 1 else if a = 0 then 0 else 1)"
| "np_sgn PInf = 1"
| "np_sgn NInf = - 1"
| "np_sgn NaN = 0"

fun np_mul :: "npfloat \<Rightarrow> npfloat \<Rightarrow> npfloat" where
  "np_mul NaN _ = NaN"
| "np_mul _ NaN = NaN"
| "np_mul (Fin a) (Fin b) = Fin (a * b)"
| "np_mul x y =
     (if np_sgn x * np_sgn y = 0 then NaN
      else if np_sgn x * np_sgn y > 0 then PInf else NInf)"

fun np_div :: "npfloat \<Rightarrow> npfloat \<Rightarrow> npfloat" where
  "np_div NaN _ = NaN"
| "np_div _ NaN = NaN"
| "np_div (Fin a) (Fin b) =
     (if b = 0 then (if a = 0 then NaN else if a > 0 then PInf else NInf)
      else Fin (a / b))"
| "np_div (Fin a) _ = Fin 0"
| "np_div x (Fin b) = (if b \<ge> 0 then x else np_neg x)"
| "np_div _ _ = NaN"

fun np_sqrt :: "npfloat \<Rightarrow> npfloat" where
  "np_sqrt (Fin a) = (if a < 0 then NaN else Fin (sqrt a))"
| "np_sqrt PInf = PInf"
| "np_sqrt NInf = NaN"
| "np_sqrt NaN = NaN"

fun np_abs :: "npfloat \<Rightarrow> npfloat" where
  "np_abs (Fin a) = Fin \<bar>a\<bar>"
| "np_abs PInf = PInf"
| "np_abs NInf = PInf"
| "np_abs NaN = NaN"

text \<open>\<^verbatim>\<open>np.maximum\<close> propagates NaN.\<close>

fun np_maximum :: "npfloat \<Rightarrow> npfloat \<Rightarrow> npfloat" where
  "np_maximum NaN _ = NaN"
| "np_maximum _ NaN = NaN"
| "np_maximum PInf _ = PInf"
| "np_maximum _ PInf = PInf"
| "np_maximum NInf y = y"
| "np_maximum x NInf = x"
| "np_maximum (Fin a) (Fin b) = Fin (max a b)"

fun np_ceil :: "npfloat \<Rightarrow> npfloat" where
  "np_ceil (Fin a) = Fin (of_int \<lceil>a\<rceil>)"
| "np_ceil x = x"

text \<open>\<^verbatim>\<open>x ** n\<close> for an integer \<open>n \<ge> 0\<close>; \<^verbatim>\<open>nan ** 0\<close> is 1.\<close>

fun np_powi :: "npfloat \<Rightarrow> nat \<Rightarrow> npfloat" where
  "np_powi x 0 = Fin 1"
| "np_powi x (Suc n) = np_mul x (np_powi x n)"

text \<open>\<^verbatim>\<open>x ** -2\<close>\<close>

definition np_pow_m2 :: "npfloat \<Rightarrow> npfloat" where
  "np_pow_m2 x = np_div (Fin 1) (np_mul x x)"

text \<open>
  \<^verbatim>\<open>astype(np.int)\<close>: truncation toward zero into a signed 64-bit integer; the
  conversion of a value that is not finite or out of range is undefined in C, which is
  \<open>None\<close> here.
\<close>

fun astype_int :: "npfloat \<Rightarrow> int option" where
  "astype_int (Fin a) =
     (let t = (if a < 0 then \<lceil>a\<rceil> else \<lfloor>a\<rfloor>)
      in if - (2 ^ 63) \<le> t \<and> t < 2 ^ 63 then Some t else None)"
| "astype_int _ = None"

text \<open>\<^verbatim>\<open>np.sum\<close> of a one-dimensional float array; the empty sum is \<open>0.0\<close>.\<close>

definition np_sum :: "npfloat list \<Rightarrow> npfloat" where
  "np_sum xs = foldl np_add (Fin 0) xs"

section \<open>Errors\<close>

datatype error =
  IndexError | AssertionError | TypeError | ValueError | AttributeError | Exception string

text \<open>Sequencing of computations that may raise.\<close>

fun ebind :: "error + 'a \<Rightarrow> ('a \<Rightarrow> error + 'b) \<Rightarrow> error + 'b" where
  "ebind (Inl e) f = Inl e"
| "ebind (Inr v) f = f v"

text \<open>
  Boolean-mask indexing \<^verbatim>\<open>a[mask]\<close> and masked assignment of a scalar
  \<^verbatim>\<open>a[mask] = v\<close>: numpy raises IndexError when the mask and the array differ in length.
\<close>

definition mask_get :: "'a list \<Rightarrow> bool list \<Rightarrow> error + 'a list" where
  "mask_get a msk =
     (if length msk \<noteq> length a then Inl IndexError
      else Inr (map fst (filter snd (zip a msk))))"

definition mask_set :: "'a list \<Rightarrow> bool list \<Rightarrow> 'a \<Rightarrow> error + 'a list" where
  "mask_set a msk v =
     (if length msk \<noteq> length a then Inl IndexError
      else Inr (map (\<lambda>(x, b). if b then v else x) (zip a msk)))"

section \<open>The iteration state \<^verbatim>\<open>MIMCItrData\<close>\<close>

text \<open>
  \<^verbatim>\<open>Bunch(S, W, w, s, theta)\<close>, the fitted constants; the field \<open>Q_W\<close> is \<^verbatim>\<open>Q.W\<close>.
\<close>

record Bunch =
  Q_S :: npfloat
  Q_W :: npfloat
  Q_w :: "npfloat list"
  Q_s :: "npfloat list"
  Q_theta :: npfloat

text \<open>
  The fields of \<^verbatim>\<open>MIMCItrData\<close> (\<^verbatim>\<open>parent\<close> and \<^verbatim>\<open>userdata\<close> are left out). Samples
  are scalar, so a power-sum table has one row per level and one column per moment. The
  flags of \<^verbatim>\<open>active_lvls\<close> are the integers the code stores (\<open>-1\<close>, \<open>0\<close>, \<open>1\<close>). \<^verbatim>\<open>_lvls\<close>
  is the level set, a list of multi-indices.
\<close>

record MIMCItrData =
  moments :: nat
  lvls :: "int list list"
  psums_delta :: "npfloat list list option"
  psums_fine :: "npfloat list list option"
  tT :: "npfloat list"
  tW :: "npfloat list"
  M :: "int list"
  bias :: npfloat
  stat_error :: npfloat
  exact_error :: npfloat
  TOL :: "npfloat option"
  total_time :: "npfloat option"
  Q :: "Bunch option"
  Vl_estimate :: "npfloat list"
  lvls_count :: nat
  weights :: "npfloat list"
  active_lvls :: "int list"

text \<open>\<^verbatim>\<open>MIMCItrData.total_error_est\<close>\<close>

definition total_error_est :: "MIMCItrData \<Rightarrow> npfloat" where
  "total_error_est self =
     np_add (bias self) (if \<not> isnan (stat_error self) then stat_error self else Fin 0)"

text \<open>
  \<^verbatim>\<open>MIMCItrData.zero_samples\<close>; \<open>ind = None\<close> clears every level, \<open>ind = Some i\<close> the
  level \<open>i\<close> (an index out of range raises IndexError).
\<close>

definition zeros_like :: "npfloat list list \<Rightarrow> npfloat list list" where
  "zeros_like a = map (map (\<lambda>_. Fin 0)) a"

definition zero_samples :: "MIMCItrData \<Rightarrow> nat option \<Rightarrow> error + MIMCItrData" where
  "zero_samples self ind =
     (case ind of
        None \<Rightarrow>
          Inr (self\<lparr>M := map (\<lambda>_. 0) (M self),
                    tT := map (\<lambda>_. Fin 0) (tT self),
                    tW := map (\<lambda>_. Fin 0) (tW self),
                    psums_delta := map_option zeros_like (psums_delta self),
                    psums_fine := map_option zeros_like (psums_fine self)\<rparr>)
      | Some i \<Rightarrow>
          if i \<ge> length (M self) \<or> i \<ge> length (tT self) \<or> i \<ge> length (tW self)
             \<or> (case psums_delta self of None \<Rightarrow> False | Some p \<Rightarrow> i \<ge> length p)
             \<or> (case psums_fine self of None \<Rightarrow> False | Some p \<Rightarrow> i \<ge> length p)
          then Inl IndexError
          else
            Inr (self\<lparr>M := (M self)[i := 0],
                      tT := (tT self)[i := Fin 0],
                      tW := (tW self)[i := Fin 0],
                      psums_delta :=
                        map_option (\<lambda>p. p[i := map (\<lambda>_. Fin 0) (p ! i)]) (psums_delta self),
                      psums_fine :=
                        map_option (\<lambda>p. p[i := map (\<lambda>_. Fin 0) (p ! i)]) (psums_fine self)\<rparr>))"

text \<open>
  \<^verbatim>\<open>ndarray.resize(new_count, refcheck=False)\<close> on the first axis: the leading
  entries are kept and the array is padded with zeros. A power-sum table keeps its row
  width (\<^verbatim>\<open>shape[1:]\<close>).
\<close>

definition resize :: "'a \<Rightarrow> nat \<Rightarrow> 'a list \<Rightarrow> 'a list" where
  "resize zero n a = take n a @ replicate (n - length a) zero"

definition resize_rows :: "nat \<Rightarrow> npfloat list list \<Rightarrow> npfloat list list" where
  "resize_rows n p =
     resize (replicate (case p of [] \<Rightarrow> 0 | r # _ \<Rightarrow> length r) (Fin 0)) n p"

text \<open>Slice assignment of a scalar, \<^verbatim>\<open>a[lo:hi] = v\<close>, with Python's clipping of the bounds.\<close>

definition slice_fill :: "'a list \<Rightarrow> nat \<Rightarrow> nat \<Rightarrow> 'a \<Rightarrow> 'a list" where
  "slice_fill a lo hi v =
     (let l = min lo (length a); h = max l (min hi (length a))
      in take l a @ replicate (h - l) v @ drop h a)"

text \<open>\<^verbatim>\<open>MIMCItrData._levels_added\<close>\<close>

definition levels_added :: "MIMCItrData \<Rightarrow> error + MIMCItrData" where
  "levels_added self =
     (let new_count = length (lvls self) in
      if \<not> (new_count \<ge> lvls_count self) then Inl AssertionError
      else if new_count = lvls_count self then Inr self
      else
        Inr (self\<lparr>psums_delta := map_option (resize_rows new_count) (psums_delta self),
                  psums_fine := map_option (resize_rows new_count) (psums_fine self),
                  Vl_estimate := resize (Fin 0) new_count (Vl_estimate self),
                  tT := resize (Fin 0) new_count (tT self),
                  tW := resize (Fin 0) new_count (tW self),
                  M := resize 0 new_count (M self),
                  weights :=
                    slice_fill (resize (Fin 0) new_count (weights self))
                      (lvls_count self) new_count (Fin 1),
                  active_lvls :=
                    slice_fill (resize 0 new_count (active_lvls self))
                      (lvls_count self) new_count 1,
                  lvls_count := new_count\<rparr>))"

text \<open>
  \<^verbatim>\<open>MIMCItrData.lvls_add_from_list\<close>. \<^verbatim>\<open>VarSizeList.add_from_list\<close> belongs to
  \<^verbatim>\<open>setutil\<close>, outside these sources: its effect on the level set, for the given
  \<^verbatim>\<open>inds\<close> and \<^verbatim>\<open>j\<close>, is the parameter \<open>add_from_list\<close>.
\<close>

definition lvls_add_from_list ::
  "(int list list \<Rightarrow> int list list) \<Rightarrow> MIMCItrData \<Rightarrow> error + MIMCItrData" where
  "lvls_add_from_list add_from_list self =
     levels_added (self\<lparr>lvls := add_from_list (lvls self)\<rparr>)"

text \<open>Every per-level array has one row per tracked level.\<close>

definition rows_ok :: "MIMCItrData \<Rightarrow> bool" where
  "rows_ok self \<longleftrightarrow>
     length (M self) = lvls_count self \<and> length (tT self) = lvls_count self \<and>
     length (tW self) = lvls_count self \<and> length (weights self) = lvls_count self \<and>
     length (active_lvls self) = lvls_count self \<and>
     length (Vl_estimate self) = lvls_count self \<and>
     (case psums_delta self of None \<Rightarrow> True | Some p \<Rightarrow> length p = lvls_count self) \<and>
     (case psums_fine self of None \<Rightarrow> True | Some p \<Rightarrow> length p = lvls_count self)"

text \<open>The entries of the levels below \<open>n\<close> agree in the two states.\<close>

definition same_below :: "nat \<Rightarrow> MIMCItrData \<Rightarrow> MIMCItrData \<Rightarrow> bool" where
  "same_below n a b \<longleftrightarrow>
     take n (M b) = take n (M a) \<and> take n (tT b) = take n (tT a) \<and>
     take n (tW b) = take n (tW a) \<and> take n (weights b) = take n (weights a) \<and>
     take n (active_lvls b) = take n (active_lvls a) \<and>
     take n (Vl_estimate b) = take n (Vl_estimate a) \<and>
     map_option (take n) (psums_delta b) = map_option (take n) (psums_delta a) \<and>
     map_option (take n) (psums_fine b) = map_option (take n) (psums_fine a)"

section \<open>Moments from power sums\<close>

text \<open>
  \<^verbatim>\<open>compute_raw_moments\<close>: \<open>psums\<close> has one row per level, \<open>M\<close> one count per level. The
  masks \<^verbatim>\<open>M != 0\<close> and \<^verbatim>\<open>M == 0\<close> index the rows, so the two lengths must agree.
  The code multiplies by the reciprocal, \<^verbatim>\<open>psums[idx] * (1./M[idx])\<close>, and so does the
  model: in doubles that product need not be the quotient.
\<close>

definition compute_raw_moments ::
  "npfloat list list \<Rightarrow> int list \<Rightarrow> error + npfloat list list" where
  "compute_raw_moments psums Ms =
     (if length Ms \<noteq> length psums then Inl IndexError
      else Inr (map (\<lambda>(row, m).
                  if m \<noteq> 0
                  then map (\<lambda>x. np_mul x (np_div (Fin 1) (Fin (of_int m)))) row
                  else map (\<lambda>_. NaN) row)
                (zip psums Ms)))"

text \<open>The column \<^verbatim>\<open>a[:, k]\<close> of a table; IndexError when the table has no such column.\<close>

definition column :: "nat \<Rightarrow> 'a list list \<Rightarrow> error + 'a list" where
  "column k a =
     (if \<exists>row \<in> set a. length row \<le> k then Inl IndexError
      else Inr (map (\<lambda>row. row ! k) a))"

text \<open>
  The loop \<^verbatim>\<open>for k in range(1, moment+1)\<close> of \<^verbatim>\<open>compute_central_moment\<close>, over the
  remaining values of \<open>k\<close>.
\<close>

fun central_loop ::
  "npfloat list list \<Rightarrow> npfloat list \<Rightarrow> nat \<Rightarrow> nat list \<Rightarrow> npfloat list
     \<Rightarrow> error + npfloat list" where
  "central_loop raw r0 n [] val = Inr val"
| "central_loop raw r0 n (k # ks) val =
     ebind (column (k - 1) raw) (\<lambda>rk.
       central_loop raw r0 n ks
         (map (\<lambda>(v, a, b).
                np_add v
                  (np_mul (np_mul (np_mul a (np_powi b (n - k))) (Fin (real (n choose k))))
                     (Fin ((- 1) ^ (n - k)))))
            (zip val (zip rk r0))))"

definition compute_central_moment ::
  "npfloat list list \<Rightarrow> int list \<Rightarrow> nat \<Rightarrow> error + npfloat list" where
  "compute_central_moment psums Ms moment =
     ebind (compute_raw_moments psums Ms) (\<lambda>raw.
       if moment = 1 then column 0 raw
       else
         ebind (column 0 raw) (\<lambda>r0.
           central_loop raw r0 moment [1..<moment + 1]
             (map (\<lambda>x. np_mul (np_powi x moment) (Fin ((- 1) ^ moment))) r0)))"

section \<open>The difference estimator\<close>

text \<open>
  \<^verbatim>\<open>expand_delta\<close>: the result is the pair \<^verbatim>\<open>(mods, levels)\<close>. In
  \<^verbatim>\<open>2 * np.sum(lvl) % 2 - 1\<close> the product and the remainder associate to the left.
\<close>

definition expand_delta :: "int list \<Rightarrow> int list \<times> int list list" where
  "expand_delta lvl =
     (let seeds = map (\<lambda>x. if x = 0 then [0] else [0, 1]) lvl;
          inds = product_lists seeds;
          mods = map (\<lambda>e. (2 * sum_list lvl mod 2 - 1) * (2 * (sum_list e mod 2) - 1)) inds
      in (mods, map (\<lambda>e. map (\<lambda>(x, y). x - y) (zip lvl e)) inds))"

text \<open>A state with one base level that holds two samples, used to instantiate the theorems.\<close>

abbreviation itr1 :: MIMCItrData where
  "itr1 \<equiv> \<lparr>moments = 2, lvls = [[0]], psums_delta = Some [[Fin 2, Fin 10]],
      psums_fine = Some [[Fin 2, Fin 10]], tT = [Fin 1], tW = [Fin 1], M = [2],
      bias = PInf, stat_error = PInf, exact_error = NaN, TOL = None, total_time = None,
      Q = None, Vl_estimate = [Fin 0], lvls_count = 1, weights = [Fin 1],
      active_lvls = [0]\<rparr>"

section \<open>Sample allocation\<close>

text \<open>
  The value of \<^verbatim>\<open>_calcTheoryM\<close> is a float array, or an integer array when \<^verbatim>\<open>ceil\<close> is
  set.
\<close>

datatype ndarray = FloatArray "npfloat list" | IntArray "int option list"

text \<open>
  \<^verbatim>\<open>_calcTheoryM(TOL, theta, Vl, Wl, active_lvls, ceil, minM, Ca)\<close>. The mask \<open>act\<close>
  indexes \<open>Wl\<close>, \<open>Vl\<close> and the result, so the three arrays have the length of
  \<open>active_lvls\<close> or the indexing raises.
\<close>

definition calcTheoryM ::
  "npfloat \<Rightarrow> npfloat \<Rightarrow> npfloat list \<Rightarrow> npfloat list \<Rightarrow> int list \<Rightarrow> bool \<Rightarrow> npfloat
     \<Rightarrow> npfloat \<Rightarrow> error + ndarray" where
  "calcTheoryM tol th Vl Wl active ceil minM Ca =
     (let act = map (\<lambda>a. a \<ge> 0) active in
      ebind (mask_get Wl act) (\<lambda>Wa.
      ebind (mask_get Vl act) (\<lambda>Va.
        let c = np_mul (np_pow_m2 (np_div (np_mul th tol) Ca))
                  (np_sum (map np_sqrt (map (\<lambda>(x, y). np_mul x y) (zip Wa Va))));
            M0 = map (\<lambda>(v, x). np_mul c (np_sqrt (np_div v x))) (zip Vl Wl);
            M1 = map (\<lambda>m. np_maximum m minM) M0;
            M2 = map (\<lambda>m. if isnan m then minM else m) M1
        in ebind (mask_set M2 (map Not act) (Fin 0)) (\<lambda>M3.
             if ceil then Inr (IntArray (map (\<lambda>m. astype_int (np_ceil m)) M3))
             else Inr (FloatArray M3)))))"

section \<open>Level estimators and the boundary bias estimate\<close>

text \<open>
  An elementwise operation on two arrays: numpy broadcasts an array of length 1 and
  raises ValueError when the lengths differ otherwise.
\<close>

definition broadcast2 :: "('a \<Rightarrow> 'b \<Rightarrow> 'c) \<Rightarrow> 'a list \<Rightarrow> 'b list \<Rightarrow> error + 'c list" where
  "broadcast2 f xs ys =
     (if length xs = length ys then Inr (map (\<lambda>(x, y). f x y) (zip xs ys))
      else if length xs = 1 then Inr (map (f (hd xs)) ys)
      else if length ys = 1 then Inr (map (\<lambda>x. f x (hd ys)) xs)
      else Inl ValueError)"

text \<open>Masked assignment from an array indexed by the same mask, \<^verbatim>\<open>a[mask] = b[mask]\<close>.\<close>

definition mask_copy :: "'a list \<Rightarrow> bool list \<Rightarrow> 'a list \<Rightarrow> error + 'a list" where
  "mask_copy a msk b =
     (if length msk \<noteq> length b \<or> length msk \<noteq> length a then Inl IndexError
      else Inr (map (\<lambda>(x, y, c). if c then y else x) (zip a (zip b msk))))"

text \<open>
  \<^verbatim>\<open>calcDeltaCentralMoment\<close> and \<^verbatim>\<open>calcFineCentralMoment\<close>. Both test
  \<^verbatim>\<open>psums_delta\<close> for None; a table that is None where it is used is not subscriptable.
\<close>

definition weighted_moment ::
  "MIMCItrData \<Rightarrow> npfloat list list option \<Rightarrow> nat \<Rightarrow> bool \<Rightarrow> error + npfloat list" where
  "weighted_moment self psums moment weighted =
     (case psums_delta self of
        None \<Rightarrow> Inr []
      | Some _ \<Rightarrow>
          (case psums of
             None \<Rightarrow> Inl TypeError
           | Some p \<Rightarrow>
               ebind (compute_central_moment p (M self) moment) (\<lambda>B.
                 if \<not> weighted then Inr B
                 else broadcast2 np_mul (map (\<lambda>x. np_powi x moment) (weights self)) B)))"

definition calcDeltaCentralMoment :: "MIMCItrData \<Rightarrow> nat \<Rightarrow> bool \<Rightarrow> error + npfloat list" where
  "calcDeltaCentralMoment self moment weighted =
     weighted_moment self (psums_delta self) moment weighted"

definition calcFineCentralMoment :: "MIMCItrData \<Rightarrow> nat \<Rightarrow> bool \<Rightarrow> error + npfloat list" where
  "calcFineCentralMoment self moment weighted =
     weighted_moment self (psums_fine self) moment weighted"

text \<open>\<^verbatim>\<open>calcEl(moment, active_only, weighted)\<close> and \<^verbatim>\<open>calcVl\<close>\<close>

definition calcEl :: "MIMCItrData \<Rightarrow> nat \<Rightarrow> bool \<Rightarrow> bool \<Rightarrow> error + npfloat list" where
  "calcEl self moment active_only weighted =
     ebind (calcDeltaCentralMoment self moment weighted) (\<lambda>El.
     ebind (calcFineCentralMoment self moment weighted) (\<lambda>Fl.
     ebind (mask_copy El (map (\<lambda>a. a = 0) (active_lvls self)) Fl) (\<lambda>El1.
     ebind (mask_set El1 (map (\<lambda>a. a < 0) (active_lvls self)) NaN) (\<lambda>El2.
       if active_only then mask_get El2 (map (\<lambda>a. a \<ge> 0) (active_lvls self))
       else Inr El2))))"


text \<open>\<^verbatim>\<open>get_lvls\<close>\<close>

definition get_lvls :: "MIMCItrData \<Rightarrow> error + int list list" where
  "get_lvls self =
     (if lvls_count self \<noteq> length (lvls self)
      then Inl (Exception ''Iteration does not use all levels!'')
      else Inr (lvls self))"

text \<open>
  \<^verbatim>\<open>estimate_bias_bnd\<close> on the last iteration \<open>itr\<close> of the run. \<^verbatim>\<open>is_boundary\<close> belongs
  to the level set of \<^verbatim>\<open>setutil\<close>, outside these sources, and is a parameter;
  \<open>Norm\<close> is \<^verbatim>\<open>run.fn.Norm\<close>, which maps an array entry by entry (\<^verbatim>\<open>np.abs\<close> unless
  the caller sets it). The entries of the float array \<^verbatim>\<open>El_bnd\<close> are doubles, of which
  the test \<^verbatim>\<open>e is None\<close> is never true.
\<close>

definition is_None :: "npfloat \<Rightarrow> bool" where
  "is_None e = False"

definition estimate_bias_bnd ::
  "(int list list \<Rightarrow> bool list) \<Rightarrow> (npfloat \<Rightarrow> npfloat) \<Rightarrow> MIMCItrData \<Rightarrow> error + npfloat" where
  "estimate_bias_bnd is_boundary Norm itr =
     ebind (calcEl itr 1 False True) (\<lambda>El.
     ebind (mask_set El (map (\<lambda>a. a = 0) (active_lvls itr)) PInf) (\<lambda>El1.
     ebind (get_lvls itr) (\<lambda>ls.
     ebind (mask_get El1 (is_boundary ls)) (\<lambda>El_bnd.
       if list_ex is_None El_bnd then Inr PInf
       else Inr (Norm (np_sum El_bnd))))))"

text \<open>
  The terms the boundary bound adds up: the per-level expectations \<open>El\<close> of the levels on
  the boundary, where a base level (flag 0) counts as \<open>+\<infinity>\<close>.
\<close>

definition boundary_terms :: "npfloat list \<Rightarrow> int list \<Rightarrow> bool list \<Rightarrow> npfloat list" where
  "boundary_terms El act bnd =
     map (\<lambda>(e, a, b). if a = 0 then PInf else e)
       (filter (\<lambda>(e, a, b). b) (zip El (zip act bnd)))"

text \<open>
  A state on the two-dimensional level set \<open>{(0,0), (1,0), (0,1)}\<close> with two samples on
  every level, and the boundary of that set: the levels of total degree 1.
\<close>

abbreviation itr3 :: MIMCItrData where
  "itr3 \<equiv> \<lparr>moments = 2, lvls = [[0, 0], [1, 0], [0, 1]],
      psums_delta = Some [[Fin 2, Fin 10], [Fin 2, Fin 4], [Fin (- 2), Fin 4]],
      psums_fine = Some [[Fin 2, Fin 10], [Fin 4, Fin 8], [Fin 2, Fin 4]],
      tT = [Fin 1, Fin 1, Fin 1], tW = [Fin 1, Fin 1, Fin 1], M = [2, 2, 2],
      bias = PInf, stat_error = PInf, exact_error = NaN, TOL = None, total_time = None,
      Q = None, Vl_estimate = [Fin 0, Fin 0, Fin 0], lvls_count = 3,
      weights = [Fin 1, Fin 1, Fin 1], active_lvls = [0, 1, 1]\<rparr>"

definition degree1_boundary :: "int list list \<Rightarrow> bool list" where
  "degree1_boundary ls = map (\<lambda>l. sum_list l = 1) ls"

section \<open>The run \<^verbatim>\<open>MIMCRun\<close>\<close>

text \<open>\<^verbatim>\<open>x ** y\<close> with a float exponent, the \<^verbatim>\<open>pow\<close> of IEEE 754.\<close>

fun np_pow :: "npfloat \<Rightarrow> npfloat \<Rightarrow> npfloat" where
  "np_pow x (Fin b) =
     (if b = 0 then Fin 1
      else case x of
        NaN \<Rightarrow> NaN
      | PInf \<Rightarrow> (if b > 0 then PInf else Fin 0)
      | NInf \<Rightarrow> (if b < 0 then Fin 0
                 else if b \<in> \<int> \<and> odd \<lfloor>b\<rfloor> then NInf else PInf)
      | Fin a \<Rightarrow>
          (if a > 0 then Fin (a powr b)
           else if a = 0 then (if b > 0 then Fin 0 else PInf)
           else if b \<in> \<int> then Fin (a powi \<lfloor>b\<rfloor>) else NaN))"
| "np_pow x NaN = (if x = Fin 1 then Fin 1 else NaN)"
| "np_pow NaN y = NaN"
| "np_pow (Fin a) PInf =
     (if \<bar>a\<bar> < 1 then Fin 0 else if \<bar>a\<bar> = 1 then Fin 1 else PInf)"
| "np_pow (Fin a) NInf =
     (if \<bar>a\<bar> < 1 then PInf else if \<bar>a\<bar> = 1 then Fin 1 else Fin 0)"
| "np_pow x PInf = PInf"
| "np_pow x NInf = Fin 0"

text \<open>\<^verbatim>\<open>x > y\<close> on doubles: false when either side is NaN.\<close>

fun np_greater :: "npfloat \<Rightarrow> npfloat \<Rightarrow> bool" where
  "np_greater NaN _ = False"
| "np_greater _ NaN = False"
| "np_greater (Fin a) (Fin b) = (a > b)"
| "np_greater PInf y = (y \<noteq> PInf)"
| "np_greater x NInf = (x \<noteq> NInf)"
| "np_greater _ _ = False"

text \<open>
  Indexing with an array of indices, \<^verbatim>\<open>a[idx]\<close>, and the column \<^verbatim>\<open>p[idx, k]\<close> of a
  power-sum table (which may be None). The index arrays of the code come from
  \<^verbatim>\<open>np.nonzero\<close> and are never negative.
\<close>

definition fancy_get :: "'a list \<Rightarrow> nat list \<Rightarrow> error + 'a list" where
  "fancy_get a idx =
     (if list_ex (\<lambda>i. i \<ge> length a) idx then Inl IndexError else Inr (map (\<lambda>i. a ! i) idx))"

definition fancy_col :: "'a list list option \<Rightarrow> nat list \<Rightarrow> nat \<Rightarrow> error + 'a list" where
  "fancy_col p idx k =
     (case p of None \<Rightarrow> Inl TypeError
      | Some rows \<Rightarrow> ebind (column k rows) (\<lambda>c. fancy_get c idx))"



text \<open>
  The parameters the estimation step reads, and the run. \<^verbatim>\<open>fn.Norm\<close> and
  \<^verbatim>\<open>fn.Hierarchy\<close> map an array entry by entry (\<^verbatim>\<open>np.abs\<close> and the mesh size of a
  one-dimensional level); \<open>conf_Ca\<close> is the property \<^verbatim>\<open>_Ca\<close>, the normal quantile
  that scipy computes from the confidence; \<open>all_itr_attr\<close> is the attribute
  \<^verbatim>\<open>_all_itr\<close>.
\<close>

record Params =
  lsq_est :: bool
  reuse_samples :: bool
  bayes_k0 :: npfloat
  bayes_k1 :: npfloat
  bayes_w_sig :: npfloat
  bayes_s_sig :: npfloat
  bayes_fit_lvls :: int

record MIMCRun =
  params :: Params
  iters :: "MIMCItrData list"
  all_itr_attr :: "MIMCItrData option"
  fn_Norm :: "npfloat \<Rightarrow> npfloat"
  fn_Hierarchy :: "int \<Rightarrow> npfloat"
  conf_Ca :: npfloat

definition last_itr :: "MIMCRun \<Rightarrow> MIMCItrData option" where
  "last_itr self = (if iters self = [] then None else Some (last (iters self)))"

definition all_itr :: "MIMCRun \<Rightarrow> MIMCItrData option" where
  "all_itr self = (if reuse_samples (params self) then last_itr self else all_itr_attr self)"

text \<open>An assignment to a field of \<^verbatim>\<open>self.iters[-1]\<close>.\<close>

definition set_last :: "MIMCRun \<Rightarrow> MIMCItrData \<Rightarrow> MIMCRun" where
  "set_last self itr = self\<lparr>iters := butlast (iters self) @ [itr]\<rparr>"

text \<open>\<^verbatim>\<open>_get_hl(L)\<close>: the mesh sizes of the levels \<open>0..L\<close>.\<close>

definition get_hl :: "MIMCRun \<Rightarrow> int \<Rightarrow> npfloat list" where
  "get_hl self L = map (fn_Hierarchy self) [0..L]"

text \<open>
  \<^verbatim>\<open>_estimateQParams\<close>. The arrays \<open>Mi\<close>, \<open>s1\<close>, \<open>s2\<close>, \<open>t1\<close>, \<open>t2\<close> are all indexed
  by \<open>included\<close> and have its length. \<^verbatim>\<open>raise NotImplemented(...)\<close> calls an object that
  is not callable, a TypeError.
\<close>

definition estimateQParams :: "MIMCRun \<Rightarrow> error + MIMCRun" where
  "estimateQParams self =
     (if \<not> lsq_est (params self) then Inr self
      else case all_itr self of
        None \<Rightarrow> Inl AttributeError
      | Some ai \<Rightarrow>
          if sum_list (M ai) = 0 then Inr self
          else
            let L = int (lvls_count ai) - 1 in
            if L \<le> 1 then Inl (Exception ''Must have at least 2 levels'')
            else
              let hl = get_hl self L in
              ebind (broadcast2 (\<lambda>x y. x \<and> y) (map (\<lambda>m. m > 0) (M ai))
                       (map (\<lambda>i. i \<ge> max 1 (L - bayes_fit_lvls (params self))) [0..L]))
                (\<lambda>sel.
              let included = filter (\<lambda>i. sel ! i) [0..<length sel] in
              ebind (fancy_get (M ai) included) (\<lambda>Mi.
              ebind (fancy_col (psums_delta ai) included 0) (\<lambda>s1.
              ebind (fancy_col (psums_delta ai) included 1) (\<lambda>s2.
              ebind (fancy_get hl (map (\<lambda>i. i - 1) included)) (\<lambda>hm.
              case last_itr self of None \<Rightarrow> Inl AttributeError | Some li \<Rightarrow>
              case Q li of None \<Rightarrow> Inl AttributeError | Some q \<Rightarrow>
              case Q_w q of [] \<Rightarrow> Inl IndexError | w0 # _ \<Rightarrow>
              ebind (fancy_get hl included) (\<lambda>hi.
              case Q_s q of [] \<Rightarrow> Inl IndexError | s0 # _ \<Rightarrow>
                let Norm = fn_Norm self;
                    t1 = map (\<lambda>(a, b). np_sub (np_pow a w0) (np_pow b w0)) (zip hm hi);
                    t2 = map (\<lambda>(a, b). np_pow_m2 (np_sub (np_pow a (np_div s0 (Fin 2)))
                                                      (np_pow b (np_div s0 (Fin 2)))))
                           (zip hm hi);
                    newW = Norm (np_div
                             (np_sum (map (\<lambda>(x, u, v). np_mul (np_mul x u) v)
                                        (zip s1 (zip t1 t2))))
                             (np_sum (map (\<lambda>(m, u, v). np_mul (np_mul (Fin (of_int m)) (np_powi u 2)) v)
                                        (zip Mi (zip t1 t2)))));
                    newS = np_div
                             (np_add
                                (np_sum (map (\<lambda>(x, y, u, v).
                                           np_sub (Norm (np_mul y v))
                                             (Norm (np_mul x (np_mul (np_mul (np_mul newW u) (Fin 2)) v))))
                                         (zip s1 (zip s2 (zip t1 t2)))))
                                (np_sum (map (\<lambda>(m, u, v).
                                           np_mul (np_mul (np_mul (Fin (of_int m)) (np_powi newW 2))
                                                     (np_powi u 2)) v)
                                         (zip Mi (zip t1 t2)))))
                             (Fin (of_int (sum_list Mi)))
                in
                if np_greater (bayes_w_sig (params self)) (Fin 0)
                   \<or> np_greater (bayes_s_sig (params self)) (Fin 0)
                then Inl TypeError
                else Inr (set_last self (li\<lparr>Q := Some (q\<lparr>Q_W := newW, Q_S := newS\<rparr>)\<rparr>)))))))))"





text \<open>\<^verbatim>\<open>get_geometric_hl(lvls, h0inv, beta)\<close>, for one level of a one-dimensional hierarchy.\<close>

definition get_geometric_hl :: "npfloat \<Rightarrow> npfloat \<Rightarrow> int \<Rightarrow> npfloat" where
  "get_geometric_hl h0inv beta l = np_div (np_pow beta (np_neg (Fin (of_int l)))) h0inv"



text \<open>
  Two Bayesian runs that reuse samples, with the fitted constants as \<^verbatim>\<open>doRun\<close>
  initialises them: one with three levels of which only the first holds samples, one
  with two levels that both hold samples.
\<close>

abbreviation bayes_params :: Params where
  "bayes_params \<equiv> \<lparr>lsq_est = True, reuse_samples = True, bayes_k0 = Fin (1 / 10),
      bayes_k1 = Fin (1 / 10), bayes_w_sig = Fin (- 1), bayes_s_sig = Fin (- 1),
      bayes_fit_lvls = 1000\<rparr>"

abbreviation Q0 :: Bunch where
  "Q0 \<equiv> \<lparr>Q_S = PInf, Q_W = PInf, Q_w = [Fin 1], Q_s = [Fin 2], Q_theta = Fin (1 / 2)\<rparr>"

abbreviation itr_one_sampled :: MIMCItrData where
  "itr_one_sampled \<equiv> \<lparr>moments = 2, lvls = [[0], [1], [2]],
      psums_delta = Some [[Fin 5, Fin 5], [Fin 0, Fin 0], [Fin 0, Fin 0]],
      psums_fine = Some [[Fin 5, Fin 5], [Fin 0, Fin 0], [Fin 0, Fin 0]],
      tT = [Fin 1, Fin 0, Fin 0], tW = [Fin 1, Fin 0, Fin 0], M = [5, 0, 0],
      bias = PInf, stat_error = PInf, exact_error = NaN, TOL = None, total_time = None,
      Q = Some Q0, Vl_estimate = [Fin 0, Fin 0, Fin 0], lvls_count = 3,
      weights = [Fin 1, Fin 1, Fin 1], active_lvls = [0, 1, 1]\<rparr>"

abbreviation run3 :: MIMCRun where
  "run3 \<equiv> \<lparr>params = bayes_params, iters = [itr_one_sampled], all_itr_attr = None,
      fn_Norm = np_abs, fn_Hierarchy = get_geometric_hl (Fin 2) (Fin 2), conf_Ca = Fin 2\<rparr>"

abbreviation itr_two_sampled :: MIMCItrData where
  "itr_two_sampled \<equiv> \<lparr>moments = 2, lvls = [[0], [1]],
      psums_delta = Some [[Fin 3, Fin 3], [Fin 3, Fin 3]],
      psums_fine = Some [[Fin 3, Fin 3], [Fin 6, Fin 12]],
      tT = [Fin 1, Fin 1], tW = [Fin 1, Fin 1], M = [3, 3],
      bias = PInf, stat_error = PInf, exact_error = NaN, TOL = None, total_time = None,
      Q = Some Q0, Vl_estimate = [Fin 0, Fin 0], lvls_count = 2,
      weights = [Fin 1, Fin 1], active_lvls = [0, 1]\<rparr>"

abbreviation run2 :: MIMCRun where
  "run2 \<equiv> \<lparr>params = bayes_params, iters = [itr_two_sampled], all_itr_attr = None,
      fn_Norm = np_abs, fn_Hierarchy = get_geometric_hl (Fin 2) (Fin 2), conf_Ca = Fin 2\<rparr>"

section \<open>Properties\<close>

lemma np_add_zero_right: "np_add x (Fin 0) = x"
  by (cases x) simp_all

text \<open>
  C8. The total error estimate is the bias plus the statistical error, where a NaN
  statistical error counts as 0: the total is then the bias alone, and it is NaN only
  if the bias is.
\<close>

theorem total_error_est_nan_as_zero:
  "total_error_est self =
     (if isnan (stat_error self) then bias self
      else np_add (bias self) (stat_error self))
   \<and> (isnan (stat_error self) \<longrightarrow>
        (isnan (total_error_est self) \<longleftrightarrow> isnan (bias self)))"
  by (simp add: total_error_est_def np_add_zero_right)

theorem total_error_est_nan_as_zero_witness:
  "total_error_est \<lparr>moments = 2, lvls = [], psums_delta = None, psums_fine = None,
      tT = [], tW = [], M = [], bias = Fin 3, stat_error = NaN, exact_error = NaN,
      TOL = None, total_time = None, Q = None, Vl_estimate = [], lvls_count = 0,
      weights = [], active_lvls = []\<rparr> = Fin 3"
  using total_error_est_nan_as_zero
    [of "\<lparr>moments = 2, lvls = [], psums_delta = None, psums_fine = None,
      tT = [], tW = [], M = [], bias = Fin 3, stat_error = NaN, exact_error = NaN,
      TOL = None, total_time = None, Q = None, Vl_estimate = [], lvls_count = 0,
      weights = [], active_lvls = []\<rparr>"]
  by simp

lemma length_resize: "length (resize z n a) = n"
  by (simp add: resize_def)

lemma take_resize: "k \<le> length a \<Longrightarrow> k \<le> n \<Longrightarrow> take k (resize z n a) = take k a"
  by (simp add: resize_def min_def)

lemma length_slice_fill: "length (slice_fill a lo hi v) = length a"
  by (simp add: slice_fill_def Let_def)

lemma take_slice_fill: "k \<le> lo \<Longrightarrow> take k (slice_fill a lo hi v) = take k a"
  by (auto simp add: slice_fill_def Let_def min_def max_def)

lemma nth_slice_fill:
  "lo \<le> i \<Longrightarrow> i < hi \<Longrightarrow> hi \<le> length a \<Longrightarrow> slice_fill a lo hi v ! i = v"
  by (auto simp add: slice_fill_def Let_def min_def max_def nth_append)

text \<open>
  C10. \<^verbatim>\<open>zero_samples()\<close> with no index returns, and afterwards every sample count,
  elapsed time and elapsed work is zero and every entry of both power-sum tables (when
  allocated) is zero, the arrays keeping their shapes; the level set, the level count,
  the active flags, the combination weights, the bias, the statistical error, the
  tolerance and the fitted constants are unchanged.
\<close>

theorem zero_samples_all:
  "\<exists>s'. zero_samples self None = Inr s'
     \<and> M s' = replicate (length (M self)) 0
     \<and> tT s' = replicate (length (tT self)) (Fin 0)
     \<and> tW s' = replicate (length (tW self)) (Fin 0)
     \<and> psums_delta s' =
         map_option (map (\<lambda>row. replicate (length row) (Fin 0))) (psums_delta self)
     \<and> psums_fine s' =
         map_option (map (\<lambda>row. replicate (length row) (Fin 0))) (psums_fine self)
     \<and> lvls s' = lvls self \<and> lvls_count s' = lvls_count self
     \<and> active_lvls s' = active_lvls self \<and> weights s' = weights self
     \<and> bias s' = bias self \<and> stat_error s' = stat_error self
     \<and> TOL s' = TOL self \<and> Q s' = Q self"
  by (cases "psums_delta self"; cases "psums_fine self")
     (simp_all add: zero_samples_def zeros_like_def map_replicate_const)


lemma take_resize_rows:
  "k \<le> length p \<Longrightarrow> k \<le> n \<Longrightarrow> take k (resize_rows n p) = take k p"
  by (simp add: resize_rows_def take_resize)

lemma length_resize_rows: "length (resize_rows n p) = n"
  by (simp add: resize_rows_def length_resize)

text \<open>
  C9. In a state whose per-level arrays have \<open>lvls_count\<close> rows, adding levels (the level
  set does not shrink) succeeds, and afterwards every per-level array (\<open>M\<close>, \<open>tT\<close>, \<open>tW\<close>,
  weights, active flags, variance estimates and the allocated power-sum tables) has
  exactly \<open>lvls_count\<close> rows, \<open>lvls_count\<close> is the size of the level set and has not
  decreased, every new level has active flag 1 and weight 1, and the entries of the
  levels there before are unchanged.
\<close>

theorem levels_added_rows:
  assumes ok: "rows_ok self"
    and grow: "lvls_count self \<le> length (add_from_list (lvls self))"
  shows "\<exists>s'. lvls_add_from_list add_from_list self = Inr s'
     \<and> rows_ok s'
     \<and> lvls_count s' = length (add_from_list (lvls self))
     \<and> lvls_count self \<le> lvls_count s'
     \<and> (\<forall>i. lvls_count self \<le> i \<and> i < lvls_count s' \<longrightarrow>
            active_lvls s' ! i = 1 \<and> weights s' ! i = Fin 1)
     \<and> same_below (lvls_count self) self s'"
proof (cases "length (add_from_list (lvls self)) = lvls_count self")
  case True
  with ok show ?thesis
    by (auto simp add: lvls_add_from_list_def levels_added_def rows_ok_def same_below_def
        split: option.splits)
next
  case False
  with grow have lt: "lvls_count self < length (add_from_list (lvls self))" by simp
  from ok lt show ?thesis
    apply (simp add: lvls_add_from_list_def levels_added_def Let_def)
    apply (intro conjI)
    subgoal by (cases "psums_delta self"; cases "psums_fine self")
        (simp_all add: rows_ok_def length_resize length_slice_fill length_resize_rows)
    subgoal by (simp add: nth_slice_fill length_resize)
    subgoal by (cases "psums_delta self"; cases "psums_fine self")
        (simp_all add: rows_ok_def same_below_def take_resize take_slice_fill take_resize_rows)
    done
qed

theorem levels_added_rows_witness:
  "rows_ok itr1 \<and> lvls_count itr1 \<le> length ((\<lambda>l. l @ [[1], [2]]) (lvls itr1))
   \<and> (\<exists>s'. lvls_add_from_list (\<lambda>l. l @ [[1], [2]]) itr1 = Inr s'
         \<and> rows_ok s' \<and> lvls_count s' = 3
         \<and> active_lvls s' = [0, 1, 1] \<and> weights s' = [Fin 1, Fin 1, Fin 1]
         \<and> M s' = [2, 0, 0])"
proof -
  have ok: "rows_ok itr1" by (simp add: rows_ok_def)
  have grow: "lvls_count itr1 \<le> length ((\<lambda>l. l @ [[1], [2]]) (lvls itr1))" by simp
  from levels_added_rows [of itr1 "\<lambda>l. l @ [[1], [2]]", OF ok grow] ok grow show ?thesis
    by (auto simp add: lvls_add_from_list_def levels_added_def resize_def slice_fill_def)
qed

lemma column_map_rows:
  "\<forall>row \<in> set a. k < length (f row) \<Longrightarrow> column k (map f a) = Inr (map (\<lambda>row. f row ! k) a)"
  by (auto simp: column_def)

lemma raw_row_first:
  "row \<noteq> [] \<Longrightarrow>
   (if m \<noteq> 0 then map (\<lambda>x. np_mul x (np_div (Fin 1) (Fin (of_int m)))) row
    else map (\<lambda>_. NaN) row) ! 0 =
   (if m = 0 then NaN else np_mul (row ! 0) (np_div (Fin 1) (Fin (of_int m))))"
  by (cases row) simp_all

text \<open>
  C6. The central moment of order 1 is the first column of the raw moments, with no
  centering: for a power-sum table with one row per count and at least one column it is,
  level by level, the first power sum times the reciprocal of the sample count (the form
  \<^verbatim>\<open>psums * (1./M)\<close> in which \<^verbatim>\<open>compute_raw_moments\<close> divides), and NaN where the
  count is zero.
\<close>

theorem central_moment_order_1:
  "compute_central_moment psums Ms 1 = ebind (compute_raw_moments psums Ms) (column 0)
   \<and> (length Ms = length psums \<and> (\<forall>row \<in> set psums. row \<noteq> []) \<longrightarrow>
        compute_central_moment psums Ms 1 =
          Inr (map (\<lambda>(row, m). if m = 0 then NaN
                                else np_mul (row ! 0) (np_div (Fin 1) (Fin (of_int m))))
                 (zip psums Ms)))"
proof (intro conjI impI)
  show "compute_central_moment psums Ms 1 = ebind (compute_raw_moments psums Ms) (column 0)"
    by (simp add: compute_central_moment_def)
next
  assume h: "length Ms = length psums \<and> (\<forall>row \<in> set psums. row \<noteq> [])"
  let ?f = "\<lambda>(row, m). if m \<noteq> 0
                  then map (\<lambda>x. np_mul x (np_div (Fin 1) (Fin (of_int m)))) row
                  else map (\<lambda>_. NaN) row"
  have "\<forall>p \<in> set (zip psums Ms). 0 < length (?f p)"
    using h by (auto dest: set_zip_leftD split: if_splits)
  then have "column 0 (map ?f (zip psums Ms)) = Inr (map (\<lambda>p. ?f p ! 0) (zip psums Ms))"
    by (rule column_map_rows)
  moreover have "map (\<lambda>p. ?f p ! 0) (zip psums Ms) =
      map (\<lambda>(row, m). if m = 0 then NaN
                        else np_mul (row ! 0) (np_div (Fin 1) (Fin (of_int m))))
        (zip psums Ms)"
    using h by (auto simp: raw_row_first simp del: np_div.simps np_mul.simps dest: set_zip_leftD)
  ultimately show "compute_central_moment psums Ms 1 =
          Inr (map (\<lambda>(row, m). if m = 0 then NaN
                                else np_mul (row ! 0) (np_div (Fin 1) (Fin (of_int m))))
                 (zip psums Ms))"
    using h by (simp add: compute_central_moment_def compute_raw_moments_def)
qed

theorem central_moment_order_1_witness:
  "length [2, 0 :: int] = length [[Fin 2, Fin 10], [Fin 0, Fin 0]]
   \<and> [Fin 2, Fin 10] \<noteq> [] \<and> [Fin 0, Fin 0] \<noteq> []
   \<and> compute_central_moment [[Fin 2, Fin 10], [Fin 0, Fin 0]] [2, 0] 1
       = Inr [np_mul (Fin 2) (np_div (Fin 1) (Fin 2)), NaN]"
  using central_moment_order_1 [of "[[Fin 2, Fin 10], [Fin 0, Fin 0]]" "[2, 0]"]
  by (simp add: compute_raw_moments_def column_def)

lemma neg_one_parity: "0 \<le> k \<Longrightarrow> - (2 * (k mod 2) - 1) = ((- 1) ^ nat k :: int)"
proof (cases "even k")
  case True
  assume "0 \<le> k"
  with True have "even (nat k)" by (simp add: even_nat_iff)
  with True show ?thesis by (simp add: even_iff_mod_2_eq_zero)
next
  case False
  assume "0 \<le> k"
  with False have "odd (nat k)" by (simp add: even_nat_iff)
  with False show ?thesis by (simp add: odd_iff_mod_2_eq_one)
qed

lemma length_seeds:
  "length (product_lists (map (\<lambda>x. if x = 0 then [0] else [0, 1::int]) lvl))
     = 2 ^ length (filter (\<lambda>x. x \<noteq> (0::int)) lvl)"
  by (induction lvl) (simp_all add: length_concat o_def sum_list_triv)

lemma distinct_seeds:
  "distinct (product_lists (map (\<lambda>x. if x = 0 then [0] else [0, 1::int]) lvl))"
  by (rule distinct_product_lists) auto

lemma set_seeds:
  "set (product_lists (map (\<lambda>x. if x = 0 then [0] else [0, 1::int]) lvl))
     = {e. length e = length lvl \<and> (\<forall>i < length lvl. e ! i = 0 \<or> (e ! i = 1 \<and> lvl ! i \<noteq> 0))}"
  by (auto simp: product_lists_set list_all2_conv_all_nth split: if_splits)

lemma sub_inj:
  assumes "length e = length lvl" and "length e' = length lvl"
    and eq: "map (\<lambda>(x, y). x - y) (zip lvl e) = map (\<lambda>(x, y). x - y) (zip lvl e')"
  shows "e = (e' :: int list)"
proof (rule nth_equalityI)
  show "length e = length e'" using assms by simp
next
  fix i assume i: "i < length e"
  have "map (\<lambda>(x, y). x - y) (zip lvl e) ! i = map (\<lambda>(x, y). x - y) (zip lvl e') ! i"
    using eq by simp
  with i assms(1,2) have "lvl ! i - e ! i = lvl ! i - e' ! i" by simp
  then show "e ! i = e' ! i" by simp
qed

lemma sum_corner_nonneg:
  "\<forall>i < length e. e ! i = 0 \<or> e ! i = (1::int) \<Longrightarrow> 0 \<le> sum_list e"
  by (rule sum_list_nonneg) (auto simp: in_set_conv_nth)


text \<open>
  C7. For a level with non-negative coordinates, \<^verbatim>\<open>expand_delta\<close> returns \<open>2 ^ k\<close>
  distinct corner points, \<open>k\<close> the number of positive coordinates: the points
  \<open>lvl - e\<close> for the vectors \<open>e\<close> with entries in \<open>{0, 1}\<close> that are 1 only where the
  coordinate is positive, each paired with the coefficient \<open>(-1) ^ sum e\<close>. In
  particular \<^verbatim>\<open>expand_delta([0])\<close> is the single pair \<open>([0], +1)\<close> and
  \<^verbatim>\<open>expand_delta([2])\<close> is \<open>([2], +1)\<close>, \<open>([1], -1)\<close>.
\<close>

theorem expand_delta_corners:
  assumes nonneg: "\<forall>x \<in> set lvl. 0 \<le> x"
  shows "(case expand_delta lvl of (mods, pts) \<Rightarrow>
           length pts = 2 ^ length (filter (\<lambda>x. 0 < x) lvl)
         \<and> length mods = length pts
         \<and> distinct pts
         \<and> set (zip pts mods) =
             (\<lambda>e. (map (\<lambda>(x, y). x - y) (zip lvl e), (- 1) ^ nat (sum_list e))) `
               {e. length e = length lvl \<and>
                   (\<forall>i < length lvl. e ! i = 0 \<or> (e ! i = 1 \<and> 0 < lvl ! i))})
       \<and> expand_delta [0] = ([1], [[0]])
       \<and> expand_delta [2] = ([1, - 1], [[2], [1]])"
proof -
  let ?seeds = "map (\<lambda>x. if x = 0 then [0] else [0, 1::int]) lvl"
  let ?C = "{e. length e = length lvl \<and>
                   (\<forall>i < length lvl. e ! i = 0 \<or> (e ! i = 1 \<and> 0 < lvl ! i))}"
  let ?f = "\<lambda>e. map (\<lambda>(x, y). x - y) (zip lvl e)"
  have filt: "filter (\<lambda>x. x \<noteq> 0) lvl = filter (\<lambda>x. 0 < x) lvl"
    using nonneg by (intro filter_cong) auto
  have setC: "set (product_lists ?seeds) = ?C"
    unfolding set_seeds using nonneg by (auto simp: less_le)
  have len: "length (product_lists ?seeds) = 2 ^ length (filter (\<lambda>x. 0 < x) lvl)"
    by (simp only: length_seeds filt)
  have inj: "inj_on ?f (set (product_lists ?seeds))"
    unfolding setC by (rule inj_onI) (auto intro: sub_inj)
  have dist: "distinct (map ?f (product_lists ?seeds))"
    using inj distinct_seeds by (simp add: distinct_map)
  have mods: "(2 * sum_list lvl mod 2 - 1) * (2 * (sum_list e mod 2) - 1) = (- 1) ^ nat (sum_list e)"
    if "e \<in> set (product_lists ?seeds)" for e
  proof -
    from that have "e \<in> ?C" by (simp only: setC)
    then have "0 \<le> sum_list e" by (intro sum_corner_nonneg) auto
    from neg_one_parity [OF this] show ?thesis by simp
  qed
  have zipmap: "zip (map ?f (product_lists ?seeds))
        (map (\<lambda>e. (2 * sum_list lvl mod 2 - 1) * (2 * (sum_list e mod 2) - 1)) (product_lists ?seeds))
      = map (\<lambda>e. (?f e, (- 1) ^ nat (sum_list e))) (product_lists ?seeds)"
    using mods by (simp add: zip_map_map zip_same_conv_map)
  show ?thesis
    unfolding expand_delta_def Let_def prod.case
  proof (intro conjI)
    show "set (zip (map ?f (product_lists ?seeds))
        (map (\<lambda>e. (2 * sum_list lvl mod 2 - 1) * (2 * (sum_list e mod 2) - 1)) (product_lists ?seeds)))
      = (\<lambda>e. (?f e, (- 1) ^ nat (sum_list e))) ` ?C"
      by (simp only: zipmap set_map setC)
  qed (simp_all add: len dist)
qed

theorem expand_delta_corners_witness:
  "(0::int) \<le> 2 \<and> (0::int) \<le> 0 \<and> (0::int) \<le> 1
   \<and> expand_delta [2, 0, 1] =
       ([1, - 1, - 1, 1], [[2, 0, 1], [2, 0, 0], [1, 0, 1], [1, 0, 0]])"
  using expand_delta_corners [of "[2, 0, 1]"]
  by (simp add: expand_delta_def)


lemma np_mul_NaN_right: "np_mul c NaN = NaN"
  by (cases c) simp_all

lemma mask_get_len: "length msk = length a \<Longrightarrow> \<exists>r. mask_get a msk = Inr r"
  by (simp add: mask_get_def)

text \<open>The float array that \<^verbatim>\<open>_calcTheoryM\<close> holds before rounding.\<close>

lemma calcTheoryM_entries:
  assumes lv: "length Vl = length active" and lw: "length Wl = length active"
  shows "\<exists>c. \<forall>ceil. calcTheoryM tol th Vl Wl active ceil minM Ca =
      (let M3 = map (\<lambda>(a, v, x). if a < 0 then Fin 0
                       else let m = np_maximum (np_mul c (np_sqrt (np_div v x))) minM
                            in if isnan m then minM else m)
                  (zip active (zip Vl Wl))
       in if ceil then Inr (IntArray (map (\<lambda>m. astype_int (np_ceil m)) M3))
          else Inr (FloatArray M3))"
proof -
  obtain Wa where wa: "mask_get Wl (map (\<lambda>a. a \<ge> 0) active) = Inr Wa"
    using mask_get_len [of "map (\<lambda>a. a \<ge> 0) active" Wl] lw by auto
  obtain Va where va: "mask_get Vl (map (\<lambda>a. a \<ge> 0) active) = Inr Va"
    using mask_get_len [of "map (\<lambda>a. a \<ge> 0) active" Vl] lv by auto
  let ?c = "np_mul (np_pow_m2 (np_div (np_mul th tol) Ca))
                  (np_sum (map np_sqrt (map (\<lambda>(x, y). np_mul x y) (zip Wa Va))))"
  have "map (\<lambda>(x, b). if b then Fin 0 else x)
          (zip (map (\<lambda>m. if isnan m then minM else m)
                 (map (\<lambda>m. np_maximum m minM)
                    (map (\<lambda>(v, x). np_mul ?c (np_sqrt (np_div v x))) (zip Vl Wl))))
               (map Not (map (\<lambda>a. a \<ge> 0) active)))
      = map (\<lambda>(a, v, x). if a < 0 then Fin 0
                       else let m = np_maximum (np_mul ?c (np_sqrt (np_div v x))) minM
                            in if isnan m then minM else m)
                  (zip active (zip Vl Wl))"
    using lv lw by (intro nth_equalityI) (simp_all add: Let_def not_le)
  then show ?thesis
    using lv lw wa va by (intro exI [of _ ?c]) (simp add: calcTheoryM_def mask_set_def Let_def)
qed


text \<open>
  C1 (amended). With arrays of one length, \<^verbatim>\<open>_calcTheoryM\<close> returns one count per level:
  a level whose flag is negative receives exactly 0, and a level whose flag is not
  negative and whose variance estimate is NaN receives the minimum \<open>minM\<close>, rounded up.
\<close>

theorem calcTheoryM_inactive_zero_nan_minimum:
  assumes lv: "length Vl = length active" and lw: "length Wl = length active"
  shows "\<exists>Ms. calcTheoryM tol th Vl Wl active True minM Ca = Inr (IntArray Ms)
     \<and> length Ms = length active
     \<and> (\<forall>i < length active.
          (active ! i < 0 \<longrightarrow> Ms ! i = Some 0)
        \<and> (0 \<le> active ! i \<and> isnan (Vl ! i) \<longrightarrow> Ms ! i = astype_int (np_ceil minM)))"
proof -
  from calcTheoryM_entries [OF lv lw, of tol th minM Ca] obtain c where
    every: "\<forall>ceil. calcTheoryM tol th Vl Wl active ceil minM Ca =
      (let M3 = map (\<lambda>(a, v, x). if a < 0 then Fin 0
                       else let m = np_maximum (np_mul c (np_sqrt (np_div v x))) minM
                            in if isnan m then minM else m)
                  (zip active (zip Vl Wl))
       in if ceil then Inr (IntArray (map (\<lambda>m. astype_int (np_ceil m)) M3))
          else Inr (FloatArray M3))"
    by blast
  have c: "calcTheoryM tol th Vl Wl active True minM Ca =
      Inr (IntArray (map (\<lambda>m. astype_int (np_ceil m))
        (map (\<lambda>(a, v, x). if a < 0 then Fin 0
                       else let m = np_maximum (np_mul c (np_sqrt (np_div v x))) minM
                            in if isnan m then minM else m)
                  (zip active (zip Vl Wl)))))"
    using every [rule_format, of True] by (simp add: Let_def)
  show ?thesis
    unfolding c using lv lw
    by (auto simp: Let_def np_mul_NaN_right elim!: isnan.elims)
qed

theorem calcTheoryM_inactive_zero_nan_minimum_witness:
  "length [NaN, Fin 1, Fin 4] = length [1, - 1, 1 :: int]
   \<and> length [Fin 1, Fin 1, Fin 1] = length [1, - 1, 1 :: int]
   \<and> calcTheoryM (Fin 1) (Fin 1) [NaN, Fin 1, Fin 4] [Fin 1, Fin 1, Fin 1] [1, - 1, 1]
        True (Fin 1) (Fin 2) = Inr (IntArray [Some 1, Some 0, Some 1])"
  using calcTheoryM_inactive_zero_nan_minimum
    [of "[NaN, Fin 1, Fin 4]" "[1, - 1, 1]" "[Fin 1, Fin 1, Fin 1]" "Fin 1" "Fin 1" "Fin 1" "Fin 2"]
  by (simp add: calcTheoryM_def mask_get_def mask_set_def np_sum_def np_pow_m2_def)

theorem calcTheoryM_nan_variance_counterexample:
  "isnan ([NaN] ! 0)
   \<and> calcTheoryM (Fin 1) (Fin 1) [NaN] [Fin 1] [1] True (Fin 1) (Fin 2) = Inr (IntArray [Some 1])
   \<and> [Some (1::int)] ! 0 \<noteq> Some 0"
  by (simp add: calcTheoryM_def mask_get_def mask_set_def np_sum_def np_pow_m2_def)

lemmas calcEl_defs = calcEl_def calcDeltaCentralMoment_def calcFineCentralMoment_def
  weighted_moment_def compute_central_moment_def compute_raw_moments_def column_def
  broadcast2_def mask_copy_def mask_set_def mask_get_def

lemma boundary_terms_code:
  "length El = length act \<Longrightarrow> length act = length bnd \<Longrightarrow>
   map fst (filter snd (zip (map (\<lambda>(x, b). if b then PInf else x)
                                (zip El (map (\<lambda>a. a = 0) act))) bnd))
     = boundary_terms El act bnd"
  unfolding boundary_terms_def
  by (induction El act bnd rule: list_induct3) auto

lemma ebind_InrD: "ebind m f = Inr y \<Longrightarrow> \<exists>x. m = Inr x \<and> f x = Inr y"
  by (cases m) simp_all

lemma mask_set_length: "mask_set a msk v = Inr r \<Longrightarrow> length r = length msk"
  by (auto simp: mask_set_def split: if_splits)

lemma calcEl_length:
  assumes "calcEl itr m False wt = Inr El"
  shows "length (active_lvls itr) = length El"
proof -
  from assms obtain El1 where
    "mask_set El1 (map (\<lambda>a. a < 0) (active_lvls itr)) NaN = Inr El"
    unfolding calcEl_def by (fastforce dest!: ebind_InrD)
  from mask_set_length [OF this] show ?thesis by simp
qed

text \<open>
  C3 (amended). When the level estimator returns the per-level expectations \<open>El\<close>, the
  iteration uses all its levels, the boundary flags match them and no boundary term is
  NaN, the boundary-bound estimator returns the norm of the sum (not the sum of the
  norms) of the boundary terms: the expectations of the levels on the boundary, a base
  level counting as \<open>+\<infinity>\<close>.
\<close>

theorem estimate_bias_bnd_norm_of_sum:
  assumes calc: "calcEl itr 1 False True = Inr El"
    and cnt: "lvls_count itr = length (lvls itr)"
    and len: "length (is_boundary (lvls itr)) = length El"
    and defined:
      "\<forall>e \<in> set (boundary_terms El (active_lvls itr) (is_boundary (lvls itr))). \<not> isnan e"
  shows "estimate_bias_bnd is_boundary Norm itr =
     Inr (Norm (np_sum (boundary_terms El (active_lvls itr) (is_boundary (lvls itr)))))"
proof -
  have la: "length (active_lvls itr) = length El" using calc by (rule calcEl_length)
  have "mask_get (map (\<lambda>(x, b). if b then PInf else x)
                    (zip El (map (\<lambda>a. a = 0) (active_lvls itr)))) (is_boundary (lvls itr))
      = Inr (boundary_terms El (active_lvls itr) (is_boundary (lvls itr)))"
    using la len by (simp add: mask_get_def boundary_terms_code)
  then show ?thesis
    using calc cnt la
    by (simp add: estimate_bias_bnd_def mask_set_def get_lvls_def is_None_def list_ex_iff)
qed

theorem estimate_bias_bnd_norm_of_sum_witness:
  "calcEl itr3 1 False True = Inr [Fin 1, Fin 1, Fin (- 1)]
   \<and> lvls_count itr3 = length (lvls itr3)
   \<and> boundary_terms [Fin 1, Fin 1, Fin (- 1)] (active_lvls itr3) (degree1_boundary (lvls itr3))
       = [Fin 1, Fin (- 1)]
   \<and> estimate_bias_bnd degree1_boundary np_abs itr3 = Inr (Fin 0)"
proof -
  have calc: "calcEl itr3 1 False True = Inr [Fin 1, Fin 1, Fin (- 1)]"
    by (simp add: calcEl_defs)
  have cnt: "lvls_count itr3 = length (lvls itr3)" by simp
  have len: "length (degree1_boundary (lvls itr3)) = length [Fin 1, Fin 1, Fin (- 1)]"
    by (simp add: degree1_boundary_def)
  have bt: "boundary_terms [Fin 1, Fin 1, Fin (- 1)] (active_lvls itr3)
      (degree1_boundary (lvls itr3)) = [Fin 1, Fin (- 1)]"
    by (simp add: boundary_terms_def degree1_boundary_def)
  have defined: "\<forall>e \<in> set (boundary_terms [Fin 1, Fin 1, Fin (- 1)] (active_lvls itr3)
      (degree1_boundary (lvls itr3))). \<not> isnan e"
    unfolding bt by simp
  from estimate_bias_bnd_norm_of_sum
    [where is_boundary = degree1_boundary and Norm = np_abs, OF calc cnt len defined]
    calc cnt bt
  show ?thesis by (simp add: np_sum_def)
qed

theorem estimate_bias_bnd_sum_of_norms_counterexample:
  "estimate_bias_bnd degree1_boundary np_abs itr3 = Inr (Fin 0)
   \<and> calcEl itr3 1 False True = Inr [Fin 1, Fin 1, Fin (- 1)]
   \<and> np_sum (map np_abs (boundary_terms [Fin 1, Fin 1, Fin (- 1)] (active_lvls itr3)
        (degree1_boundary (lvls itr3)))) = Fin 2
   \<and> Fin 0 \<noteq> Fin 2"
  by (simp add: estimate_bias_bnd_def get_lvls_def is_None_def calcEl_defs
      boundary_terms_def degree1_boundary_def np_sum_def)

text \<open>
  C2 (amended). When the fitting step runs (Bayesian fitting enabled, at least one sample
  recorded overall) and the iteration tracks at most two levels (\<open>lvls_count - 1 \<le> 1\<close>),
  it raises \<^verbatim>\<open>Exception("Must have at least 2 levels")\<close> instead of producing fitted
  constants, whatever the number of levels that hold samples.
\<close>

theorem estimateQParams_raises_up_to_two_levels:
  assumes "lsq_est (params self)"
    and "all_itr self = Some ai"
    and "sum_list (M ai) \<noteq> 0"
    and "int (lvls_count ai) - 1 \<le> 1"
  shows "estimateQParams self = Inl (Exception ''Must have at least 2 levels'')"
  using assms by (simp add: estimateQParams_def)

theorem estimateQParams_raises_up_to_two_levels_witness:
  "lsq_est (params run2) \<and> all_itr run2 = Some itr_two_sampled
   \<and> sum_list (M itr_two_sampled) = 6 \<and> int (lvls_count itr_two_sampled) - 1 = 1
   \<and> estimateQParams run2 = Inl (Exception ''Must have at least 2 levels'')"
proof -
  have a: "lsq_est (params run2)" by simp
  have b: "all_itr run2 = Some itr_two_sampled" by (simp add: all_itr_def last_itr_def)
  have c: "sum_list (M itr_two_sampled) \<noteq> 0" by simp
  have d: "int (lvls_count itr_two_sampled) - 1 \<le> 1" by simp
  from estimateQParams_raises_up_to_two_levels [OF a b c d] b show ?thesis by simp
qed

theorem estimateQParams_one_sampled_level_counterexample:
  "lsq_est (params run3) \<and> all_itr run3 = Some itr_one_sampled
   \<and> M itr_one_sampled = [5, 0, 0]
   \<and> estimateQParams run3 =
       Inr (run3\<lparr>iters := [itr_one_sampled\<lparr>Q := Some (Q0\<lparr>Q_W := NaN, Q_S := NaN\<rparr>)\<rparr>]\<rparr>)"
  by (simp add: estimateQParams_def all_itr_def last_itr_def get_hl_def broadcast2_def
      fancy_get_def fancy_col_def column_def set_last_def np_sum_def Let_def upto.simps)












end
